theory Spec2Isabelle
  imports Main "HOL-Library.Sublist"
begin

section \<open>A webhook-driven build server: the deploy revision of index.js\<close>

text \<open>
  The development embeds the second listing of \<^verbatim>\<open>src/index.js\<close> (the revision with
  \<^verbatim>\<open>deployProcess\<close>): \<^verbatim>\<open>updateStatus\<close>, \<^verbatim>\<open>makeBuild\<close>, \<^verbatim>\<open>buildProcess\<close>,
  \<^verbatim>\<open>buildPRProcess\<close>, \<^verbatim>\<open>deployProcess\<close> and the two webhook handlers.

  The program talks to four collaborators that are not part of the repository: the REST
  client, shelljs, the file system and the clock. A run of one handler is modelled as a
  function on the history of the calls it has made so far (a list of events, oldest
  first). What a collaborator answers is read from an environment whose answers may
  depend on the whole history, so every deterministic behaviour of the outside world is
  an environment. No shelljs call throws (shelljs reports a failed command through its
  exit code). The functions of the program are given for requests that the REST client
  answers, that is, for which it calls the callback; a request that gets no answer ends
  the process, which the outcome of handling a push accounts for.
\<close>

subsection \<open>JavaScript values\<close>

datatype jsval =
    JUndefined
  | JNull
  | JBool bool
  | JNum int
  | JStr string
  | JObject "(string \<times> jsval) list"

text \<open>The test of \<^verbatim>\<open>if(data)\<close>: ToBoolean. Numbers are integers here.\<close>

fun truthy :: "jsval \<Rightarrow> bool" where
  "truthy JUndefined = False"
| "truthy JNull = False"
| "truthy (JBool b) = b"
| "truthy (JNum n) = (n \<noteq> 0)"
| "truthy (JStr s) = (s \<noteq> [])"
| "truthy (JObject kvs) = True"

text \<open>Decimal digits of a number, as a template literal prints \<^verbatim>\<open>Date.now()\<close>.\<close>

fun show_nat :: "nat \<Rightarrow> string" where
  "show_nat n =
     (if n < 10 then [''0123456789'' ! n]
      else show_nat (n div 10) @ [''0123456789'' ! (n mod 10)])"

declare show_nat.simps [simp del]

text \<open>What a template literal prints for a value: ToString (a plain object prints as
  \<^verbatim>\<open>[object Object]\<close>).\<close>

fun toString :: "jsval \<Rightarrow> string" where
  "toString JUndefined = ''undefined''"
| "toString JNull = ''null''"
| "toString (JBool b) = (if b then ''true'' else ''false'')"
| "toString (JNum n) = (if n < 0 then CHR ''-'' # show_nat (nat (- n)) else show_nat (nat n))"
| "toString (JStr s) = s"
| "toString (JObject kvs) = ''[object Object]''"

text \<open>
  \<^verbatim>\<open>String.prototype.replace\<close> with a string pattern: the first occurrence of the
  pattern is replaced, and the replacement text is expanded first. With a string pattern
  there are no capture groups, so only \<^verbatim>\<open>$$\<close>, \<^verbatim>\<open>$&\<close>, the dollar-backquote and the
  dollar-quote patterns are special; every other dollar stands for itself.
\<close>

fun find_first :: "string \<Rightarrow> string \<Rightarrow> (string \<times> string) option" where
  "find_first pat [] = (if pat = [] then Some ([], []) else None)"
| "find_first pat (c # cs) =
     (if prefix pat (c # cs) then Some ([], drop (length pat) (c # cs))
      else map_option (\<lambda>(b, a). (c # b, a)) (find_first pat cs))"

fun getSubstitution :: "string \<Rightarrow> string \<Rightarrow> string \<Rightarrow> string \<Rightarrow> string" where
  "getSubstitution m b a [] = []"
| "getSubstitution m b a [c] = [c]"
| "getSubstitution m b a (c # d # r) =
     (if c = CHR ''$'' then
        (if d = CHR ''$'' then CHR ''$'' # getSubstitution m b a r
         else if d = CHR ''&'' then m @ getSubstitution m b a r
         else if d = CHR 0x60 then b @ getSubstitution m b a r
         else if d = CHR 0x27 then a @ getSubstitution m b a r
         else c # getSubstitution m b a (d # r))
      else c # getSubstitution m b a (d # r))"

definition replace :: "string \<Rightarrow> string \<Rightarrow> string \<Rightarrow> string" where
  "replace s pat rep =
     (case find_first pat s of
        None \<Rightarrow> s
      | Some (b, a) \<Rightarrow> b @ getSubstitution pat b a rep @ a)"

text \<open>\<^verbatim>\<open>Array.prototype.indexOf\<close>: the index of the first equal element, or -1.\<close>

fun indexOf_from :: "'a list \<Rightarrow> 'a \<Rightarrow> int \<Rightarrow> int" where
  "indexOf_from [] x i = - 1"
| "indexOf_from (y # ys) x i = (if y = x then i else indexOf_from ys x (i + 1))"

definition indexOf :: "'a list \<Rightarrow> 'a \<Rightarrow> int" where
  "indexOf xs x = indexOf_from xs x 0"

subsection \<open>Configuration, payloads and the outside world\<close>

text \<open>
  \<^verbatim>\<open>./config\<close> is not among the sources: the three settings the modelled functions
  read are parameters (\<^verbatim>\<open>output\<close> is a keyword of Isabelle, so the field is primed).
  \<^verbatim>\<open>deployFor\<close> is an array of ref names.
\<close>

record config =
  accessToken :: string
  output' :: string
  deployFor :: "string list"

text \<open>The status object of \<^verbatim>\<open>updateStatus\<close>, and the \<^verbatim>\<open>args\<close> it posts.\<close>

record status =
  state :: string
  description :: string

record post_args =
  data :: status
  headers :: "(string \<times> string) list"

text \<open>The second argument of the client's callback.\<close>

record response =
  statusCode :: nat
  body :: string

text \<open>
  The fields of the webhook payloads that the code reads, named by their paths:
  \<^verbatim>\<open>ref\<close>, \<^verbatim>\<open>head_commit.id\<close>, \<^verbatim>\<open>repository.clone_url\<close>,
  \<^verbatim>\<open>repository.statuses_url\<close> of a push and \<^verbatim>\<open>pull_request.statuses_url\<close>,
  \<^verbatim>\<open>pull_request.head.sha\<close>, \<^verbatim>\<open>pull_request.base.repo.clone_url\<close> of a pull request.
\<close>

record push_payload =
  ref :: string
  head_commit_id :: string
  repository_clone_url :: string
  repository_statuses_url :: string

record pr_payload =
  pull_request_statuses_url :: string
  pull_request_head_sha :: string
  pull_request_base_repo_clone_url :: string

datatype event =
    Post string post_args
  | Mkdir string string
  | Exec string
  | Cd string
  | ConsoleLog string
  | ConsoleError string

type_synonym history = "event list"

record env =
  http_reply :: "history \<Rightarrow> string \<Rightarrow> post_args \<Rightarrow> jsval \<times> response"
  exit_code :: "history \<Rightarrow> string \<Rightarrow> int"
  existsSync :: "history \<Rightarrow> string \<Rightarrow> bool"
  date_now :: "history \<Rightarrow> nat"

text \<open>
  A rejected promise is the left summand, holding the rejection's reason; awaiting it
  throws that reason.
\<close>

type_synonym 'a promise = "jsval + 'a"

subsection \<open>updateStatus\<close>

definition status_args :: "status \<Rightarrow> post_args" where
  "status_args st =
     \<lparr>data = \<lparr>state = state st, description = description st\<rparr>,
      headers = [(''User-Agent'', ''request''), (''Content-Type'', ''application/json'')]\<rparr>"

definition repoURL :: "string \<Rightarrow> string \<Rightarrow> string \<Rightarrow> string" where
  "repoURL proc repo commit = (if proc = ''PR'' then repo else replace repo ''{sha}'' commit)"

definition post_url :: "config \<Rightarrow> string \<Rightarrow> string \<Rightarrow> string \<Rightarrow> string" where
  "post_url cfg proc repo commit = repoURL proc repo commit @ ''?access_token='' @ accessToken cfg"

definition updateStatus ::
  "config \<Rightarrow> env \<Rightarrow> string \<Rightarrow> string \<Rightarrow> status \<Rightarrow> string \<Rightarrow> history \<Rightarrow> jsval promise \<times> history"
where
  "updateStatus cfg e proc repo st commit h =
     (let args = status_args st;
          url = post_url cfg proc repo commit;
          (d, resp) = http_reply e h url args;
          h1 = h @ [Post url args]
      in if truthy d then (Inr d, h1 @ [ConsoleLog ''Status updated''])
         else (Inl JUndefined, h1 @ [ConsoleError ''Something went wrong'']))"

subsection \<open>makeBuild\<close>

definition shell_exec :: "env \<Rightarrow> string \<Rightarrow> history \<Rightarrow> int \<times> history" where
  "shell_exec e cmd h = (exit_code e h cmd, h @ [Exec cmd])"

text \<open>
  The third argument is a JavaScript value: the pull-request path calls \<^verbatim>\<open>makeBuild\<close>
  with two arguments, so \<^verbatim>\<open>outputFile\<close> is \<^verbatim>\<open>undefined\<close> there. The result is the
  \<^verbatim>\<open>code\<close> field of what the last \<^verbatim>\<open>shell.exec\<close> returns.
\<close>

definition makeBuild :: "env \<Rightarrow> string \<Rightarrow> string \<Rightarrow> jsval \<Rightarrow> history \<Rightarrow> int \<times> history" where
  "makeBuild e cloneURL cwd outputFile h =
     (let h1 =
            (if \<not> existsSync e h cwd then
               (let h' = h @ [Mkdir ''-p'' cwd];
                    (c, h'') = shell_exec e (''git clone '' @ cloneURL @ '' '' @ cwd) h'
                in h'' @ [Cd cwd])
             else
               (let h' = h @ [Cd cwd];
                    (c, h'') = shell_exec e ''git pull'' h'
                in h''));
          (c, h2) = shell_exec e ''npm install'' h1
      in shell_exec e
           (''npm test >> /Users/santhoshraju/Documents/github-node-webhook/'' @ toString outputFile)
           h2)"

subsection \<open>buildProcess and buildPRProcess\<close>

text \<open>The two conditional expressions that both pipelines compute from \<^verbatim>\<open>code.code\<close>.\<close>

definition final_state :: "int \<Rightarrow> string" where
  "final_state code = (if code = 1 then ''failure'' else ''success'')"

definition final_description :: "int \<Rightarrow> string" where
  "final_description code =
     (if code = 1 then ''Build & tests failed'' else ''Build & test case execution success'')"

definition buildProcess ::
  "config \<Rightarrow> env \<Rightarrow> push_payload \<Rightarrow> string \<Rightarrow> history \<Rightarrow> int promise \<times> history"
where
  "buildProcess cfg e repository outputFile h =
     (case updateStatus cfg e ''Commit'' (repository_statuses_url repository)
             \<lparr>state = ''pending'', description = ''Running build & tests''\<rparr>
             (head_commit_id repository) h of
        (Inl err, h1) \<Rightarrow> (Inl err, h1)
      | (Inr ack, h1) \<Rightarrow>
          (let cwd = ''/Users/santhoshraju/Documents/github-node-webhook/PRS/''
                       @ head_commit_id repository;
               (code, h2) = makeBuild e (repository_clone_url repository) cwd (JStr outputFile) h1
           in case updateStatus cfg e ''Commit'' (repository_statuses_url repository)
                     \<lparr>state = final_state code, description = final_description code\<rparr>
                     (head_commit_id repository) h2 of
                (Inl err, h3) \<Rightarrow> (Inl err, h3)
              | (Inr ack', h3) \<Rightarrow> (Inr code, h3)))"

definition buildPRProcess ::
  "config \<Rightarrow> env \<Rightarrow> pr_payload \<Rightarrow> history \<Rightarrow> unit promise \<times> history"
where
  "buildPRProcess cfg e repository h =
     (case updateStatus cfg e ''PR'' (pull_request_statuses_url repository)
             \<lparr>state = ''pending'', description = ''Running build & tests''\<rparr> [] h of
        (Inl err, h1) \<Rightarrow> (Inl err, h1)
      | (Inr ack, h1) \<Rightarrow>
          (let cwd = ''/Users/santhoshraju/Documents/github-node-webhook/PRS/''
                       @ pull_request_head_sha repository;
               (code, h2) = makeBuild e (pull_request_base_repo_clone_url repository) cwd
                              JUndefined h1
           in case updateStatus cfg e ''PR'' (pull_request_statuses_url repository)
                     \<lparr>state = final_state code, description = final_description code\<rparr> [] h2 of
                (Inl err, h3) \<Rightarrow> (Inl err, h3)
              | (Inr ack', h3) \<Rightarrow> (Inr (), h3)))"

subsection \<open>deployProcess and the handlers\<close>

definition try_catch ::
  "(history \<Rightarrow> 'a promise \<times> history) \<Rightarrow> (jsval \<Rightarrow> history \<Rightarrow> 'a promise \<times> history) \<Rightarrow>
   history \<Rightarrow> 'a promise \<times> history"
where
  "try_catch block handler h =
     (case block h of
        (Inl err, h') \<Rightarrow> handler err h'
      | (Inr v, h') \<Rightarrow> (Inr v, h'))"

definition new_outputFile :: "config \<Rightarrow> env \<Rightarrow> history \<Rightarrow> string" where
  "new_outputFile cfg e h = output' cfg @ show_nat (date_now e h) @ ''.txt''"

text \<open>The block of the \<^verbatim>\<open>try\<close> in \<^verbatim>\<open>deployProcess\<close>.\<close>

definition deployProcess_try ::
  "config \<Rightarrow> env \<Rightarrow> push_payload \<Rightarrow> history \<Rightarrow> unit promise \<times> history"
where
  "deployProcess_try cfg e repository h =
     (let outputFile = new_outputFile cfg e h;
          (c, h1) = shell_exec e (''touch '' @ outputFile) h
      in case buildProcess cfg e repository outputFile h1 of
           (Inl err, h2) \<Rightarrow> (Inl err, h2)
         | (Inr buildStatus, h2) \<Rightarrow>
             (if buildStatus = 0 then (Inr (), h2 @ [ConsoleLog ''build successfull''])
              else (Inr (), h2 @ [ConsoleLog ''build failed''])))"

definition deployProcess ::
  "config \<Rightarrow> env \<Rightarrow> push_payload \<Rightarrow> history \<Rightarrow> unit promise \<times> history"
where
  "deployProcess cfg e repository =
     try_catch (deployProcess_try cfg e repository)
       (\<lambda>err h. (Inr (), h @ [ConsoleError (''Something went wrong '' @ toString err)]))"

text \<open>
  The handlers start an asynchronous function and drop its promise. The pull-request
  handler's only statement is commented out.
\<close>

definition on_push :: "config \<Rightarrow> env \<Rightarrow> push_payload \<Rightarrow> history \<Rightarrow> history" where
  "on_push cfg e payload h =
     (if indexOf (deployFor cfg) (ref payload) \<ge> 0
      then snd (deployProcess cfg e payload (h @ [ConsoleLog ''Deployment process started'']))
      else h)"

definition on_pull_request :: "config \<Rightarrow> env \<Rightarrow> pr_payload \<Rightarrow> history \<Rightarrow> history" where
  "on_pull_request cfg e payload h = h"

subsection \<open>Requests that get no answer\<close>

text \<open>
  The functions above describe the program when the REST client calls back. When a
  request fails in transport (the host cannot be reached), the client does not call the
  callback: it emits an \<^verbatim>\<open>error\<close> event on the request object that \<^verbatim>\<open>client.post\<close>
  returns. \<^verbatim>\<open>updateStatus\<close> drops that object and nothing in \<^verbatim>\<open>index.js\<close> listens
  for the event, so the error is thrown out of the emitter, outside every function of the
  program and outside the \<^verbatim>\<open>try\<close> of \<^verbatim>\<open>deployProcess\<close>. The promise of
  \<^verbatim>\<open>updateStatus\<close> is never settled, the functions that await it never resume, and the
  process ends with the uncaught exception.

  Which requests fail is one more answer of the outside world: \<open>request_error h u a\<close> is
  the error of the request that posts \<open>a\<close> to \<open>u\<close> after the history \<open>h\<close>, if that request
  fails. Up to the first such request the handler does what it does when every request is
  answered, since nothing it did before depends on that answer; so the outcome of
  handling a push is read off the history of \<^verbatim>\<open>on_push\<close>: it is cut after the first
  post whose request fails.
\<close>

datatype outcome = Returned history | Uncaught history jsval

fun first_request_error ::
  "(history \<Rightarrow> string \<Rightarrow> post_args \<Rightarrow> jsval option) \<Rightarrow> history \<Rightarrow> event list \<Rightarrow>
   (history \<times> jsval) option"
where
  "first_request_error request_error h [] = None"
| "first_request_error request_error h (Post u a # evs) =
     (case request_error h u a of
        Some err \<Rightarrow> Some (h @ [Post u a], err)
      | None \<Rightarrow> first_request_error request_error (h @ [Post u a]) evs)"
| "first_request_error request_error h (ev # evs) =
     first_request_error request_error (h @ [ev]) evs"

definition push_outcome ::
  "config \<Rightarrow> env \<Rightarrow> (history \<Rightarrow> string \<Rightarrow> post_args \<Rightarrow> jsval option) \<Rightarrow> push_payload \<Rightarrow>
   history \<Rightarrow> outcome"
where
  "push_outcome cfg e request_error payload h =
     (let h' = on_push cfg e payload h
      in case first_request_error request_error h (drop (length h) h') of
           None \<Rightarrow> Returned h'
         | Some (hc, err) \<Rightarrow> Uncaught hc err)"

subsection \<open>Observations and test inputs\<close>

abbreviation pending_status :: status where
  "pending_status \<equiv> \<lparr>state = ''pending'', description = ''Running build & tests''\<rparr>"

text \<open>
  The timeline of a history keeps what the properties below speak of, in order: each status report
  with the state it posts, and each shell command.
\<close>

datatype step = Report string | Run string

fun timeline :: "history \<Rightarrow> step list" where
  "timeline [] = []"
| "timeline (Post u a # h) = Report (state (data a)) # timeline h"
| "timeline (Exec c # h) = Run c # timeline h"
| "timeline (ev # h) = timeline h"

text \<open>
  A configuration, a push, a pull request, and a family of environments: the status
  API acknowledges the pending post, respectively the final post, or answers it with an
  empty body; the working directory exists or not; the test command exits with \<open>c\<close>.
\<close>

definition cfg0 :: config where
  "cfg0 = \<lparr>accessToken = ''t0k3n'', output' = ''logs/'',
            deployFor = [''refs/heads/master'', ''refs/heads/develop'']\<rparr>"

definition push0 :: push_payload where
  "push0 = \<lparr>ref = ''refs/heads/develop'', head_commit_id = ''abc123'',
             repository_clone_url = ''https://example.com/repo.git'',
             repository_statuses_url = ''https://api.example.com/repos/o/r/statuses/{sha}''\<rparr>"

definition pr0 :: pr_payload where
  "pr0 = \<lparr>pull_request_statuses_url = ''https://api.example.com/repos/o/r/statuses/abc123'',
           pull_request_head_sha = ''abc123'',
           pull_request_base_repo_clone_url = ''https://example.com/repo.git''\<rparr>"

definition test_env :: "bool \<Rightarrow> bool \<Rightarrow> bool \<Rightarrow> int \<Rightarrow> env" where
  "test_env ack_pending ack_final dir_exists c =
     \<lparr>http_reply = (\<lambda>h u a.
        if (if state (data a) = ''pending'' then ack_pending else ack_final)
        then (JObject [(''state'', JStr (state (data a)))], \<lparr>statusCode = 201, body = ''{}''\<rparr>)
        else (JStr [], \<lparr>statusCode = 500, body = []\<rparr>)),
      exit_code = (\<lambda>h cmd. if prefix ''npm test'' cmd then c else 0),
      existsSync = (\<lambda>h p. dir_exists),
      date_now = (\<lambda>h. 1500000000000)\<rparr>"

text \<open>An environment whose status API gives every post the same answer.\<close>

definition reply_env :: "jsval \<Rightarrow> response \<Rightarrow> env" where
  "reply_env d r =
     \<lparr>http_reply = (\<lambda>h u a. (d, r)),
      exit_code = (\<lambda>h cmd. 0),
      existsSync = (\<lambda>h p. False),
      date_now = (\<lambda>h. 1500000000000)\<rparr>"

text \<open>A status API that cannot be reached: every request fails with the same error.\<close>

definition unreachable :: "history \<Rightarrow> string \<Rightarrow> post_args \<Rightarrow> jsval option" where
  "unreachable h u a = Some (JObject [(''code'', JStr ''ECONNREFUSED'')])"

section \<open>Properties\<close>

subsection \<open>The called functions, as equations on histories\<close>

lemma timeline_append [simp]: "timeline (h @ h') = timeline h @ timeline h'"
  by (induction h rule: timeline.induct) auto

lemma updateStatus_cases:
  "updateStatus cfg e proc repo st commit h =
     (let d = fst (http_reply e h (post_url cfg proc repo commit) (status_args st)) in
      if truthy d
      then (Inr d, h @ [Post (post_url cfg proc repo commit) (status_args st),
                         ConsoleLog ''Status updated''])
      else (Inl JUndefined, h @ [Post (post_url cfg proc repo commit) (status_args st),
                                  ConsoleError ''Something went wrong'']))"
  by (simp add: updateStatus_def Let_def split: prod.splits)

lemma makeBuild_eq:
  "makeBuild e url cwd out h =
     (let pre = (if existsSync e h cwd then [Cd cwd, Exec ''git pull'']
                 else [Mkdir ''-p'' cwd, Exec (''git clone '' @ url @ '' '' @ cwd), Cd cwd]);
          cmd = ''npm test >> /Users/santhoshraju/Documents/github-node-webhook/'' @ toString out
      in (exit_code e (h @ pre @ [Exec ''npm install'']) cmd,
          h @ pre @ [Exec ''npm install'', Exec cmd]))"
  by (simp add: makeBuild_def shell_exec_def Let_def)

lemma state_status_args [simp]: "state (data (status_args st)) = state st"
  by (simp add: status_args_def)

lemma updateStatus_rejects_undefined:
  "isl (fst (updateStatus cfg e proc repo st commit h)) \<Longrightarrow>
   updateStatus cfg e proc repo st commit h =
     (Inl JUndefined, h @ [Post (post_url cfg proc repo commit) (status_args st),
                           ConsoleError ''Something went wrong''])"
  by (simp add: updateStatus_cases Let_def split: if_splits)

lemma timeline_updateStatus [simp]:
  "timeline (snd (updateStatus cfg e proc repo st commit h)) = timeline h @ [Report (state st)]"
  by (simp add: updateStatus_cases Let_def)

lemma buildProcess_pending_rejected:
  assumes "isl (fst (updateStatus cfg e ''Commit'' (repository_statuses_url p) pending_status
                  (head_commit_id p) h))"
  shows "buildProcess cfg e p out h =
           (Inl JUndefined,
            h @ [Post (post_url cfg ''Commit'' (repository_statuses_url p) (head_commit_id p))
                   (status_args pending_status),
                 ConsoleError ''Something went wrong''])"
  using updateStatus_rejects_undefined [OF assms] by (simp add: buildProcess_def)

lemma final_state_cases: "final_state c = ''success'' \<or> final_state c = ''failure''"
  by (simp add: final_state_def)

lemma timeline_buildProcess:
  "timeline (snd (buildProcess cfg e p out h)) =
     (let h1 = snd (updateStatus cfg e ''Commit'' (repository_statuses_url p) pending_status
                      (head_commit_id p) h);
          cwd = ''/Users/santhoshraju/Documents/github-node-webhook/PRS/'' @ head_commit_id p
      in if isl (fst (updateStatus cfg e ''Commit'' (repository_statuses_url p) pending_status
                        (head_commit_id p) h))
         then timeline h @ [Report ''pending'']
         else timeline h @ Report ''pending'' #
              map Run
                [if existsSync e h1 cwd then ''git pull''
                 else ''git clone '' @ repository_clone_url p @ '' '' @ cwd,
                 ''npm install'',
                 ''npm test >> /Users/santhoshraju/Documents/github-node-webhook/'' @ out] @
              [Report (final_state (fst (makeBuild e (repository_clone_url p) cwd (JStr out) h1)))])"
  by (simp add: buildProcess_def updateStatus_cases makeBuild_eq Let_def)

lemma timeline_buildPRProcess:
  "timeline (snd (buildPRProcess cfg e p h)) =
     (let h1 = snd (updateStatus cfg e ''PR'' (pull_request_statuses_url p) pending_status [] h);
          cwd = ''/Users/santhoshraju/Documents/github-node-webhook/PRS/'' @ pull_request_head_sha p
      in if isl (fst (updateStatus cfg e ''PR'' (pull_request_statuses_url p) pending_status [] h))
         then timeline h @ [Report ''pending'']
         else timeline h @ Report ''pending'' #
              map Run
                [if existsSync e h1 cwd then ''git pull''
                 else ''git clone '' @ pull_request_base_repo_clone_url p @ '' '' @ cwd,
                 ''npm install'',
                 ''npm test >> /Users/santhoshraju/Documents/github-node-webhook/undefined''] @
              [Report (final_state
                 (fst (makeBuild e (pull_request_base_repo_clone_url p) cwd JUndefined h1)))])"
  by (simp add: buildPRProcess_def updateStatus_cases makeBuild_eq Let_def)


lemma deployProcess_eq:
  "deployProcess cfg e p h =
     (case buildProcess cfg e p (new_outputFile cfg e h)
             (h @ [Exec (''touch '' @ new_outputFile cfg e h)]) of
        (Inl err, h') \<Rightarrow> (Inr (), h' @ [ConsoleError (''Something went wrong '' @ toString err)])
      | (Inr c, h') \<Rightarrow>
          (Inr (), h' @ [ConsoleLog (if c = 0 then ''build successfull'' else ''build failed'')]))"
  by (simp add: deployProcess_def deployProcess_try_def try_catch_def shell_exec_def Let_def
      split: prod.splits sum.splits)

lemma find_first_at_pattern: "find_first pat (pat @ suf) = Some ([], suf)"
proof (cases "pat @ suf")
  case Nil
  then show ?thesis by simp
next
  case (Cons a list)
  have "prefix pat (a # list)"
    by (metis Cons prefixI)
  moreover have "drop (length pat) (a # list) = suf"
    by (metis Cons append_eq_conv_conj)
  ultimately show ?thesis
    by (simp add: Cons)
qed

lemma find_first_first_occurrence:
  "\<forall>i<length pre. \<not> prefix pat (drop i (pre @ pat @ suf)) \<Longrightarrow>
   find_first pat (pre @ pat @ suf) = Some (pre, suf)"
proof (induction pre)
  case Nil
  show ?case by (simp add: find_first_at_pattern)
next
  case (Cons c pre)
  from Cons.prems have here: "\<not> prefix pat (c # pre @ pat @ suf)"
    by (metis append_Cons drop0 length_greater_0_conv list.simps(3))
  have later: "\<forall>i<length pre. \<not> prefix pat (drop i (pre @ pat @ suf))"
  proof (intro allI impI)
    fix i assume "i < length pre"
    then have "Suc i < length (c # pre)" by simp
    with Cons.prems have "\<not> prefix pat (drop (Suc i) ((c # pre) @ pat @ suf))" by blast
    then show "\<not> prefix pat (drop i (pre @ pat @ suf))" by simp
  qed
  show ?case
    using here Cons.IH [OF later] by simp
qed

lemma find_first_absent:
  "CHR ''{'' \<notin> set s \<Longrightarrow> find_first ''{sha}'' s = None"
  by (induction s) auto

lemma getSubstitution_plain:
  "CHR ''$'' \<notin> set rep \<Longrightarrow> getSubstitution m b a rep = rep"
  by (induction m b a rep rule: getSubstitution.induct) auto

lemma indexOf_from_nonneg:
  "0 \<le> i \<Longrightarrow> (0 \<le> indexOf_from xs x i) = (x \<in> set xs)"
  by (induction xs arbitrary: i) auto

lemma indexOf_nonneg: "(0 \<le> indexOf xs x) = (x \<in> set xs)"
  by (simp add: indexOf_def indexOf_from_nonneg)

lemma show_nat_clock: "show_nat 1500000000000 = ''1500000000000''"
  by (simp add: show_nat.simps)

lemmas model_defs =
  buildProcess_def buildPRProcess_def deployProcess_eq updateStatus_cases makeBuild_eq
  post_url_def repoURL_def replace_def status_args_def final_state_def final_description_def
  new_outputFile_def Let_def

lemmas input_defs = cfg0_def push0_def pr0_def test_env_def reply_env_def show_nat_clock

lemma deployProcess_begins:
  "\<exists>r. snd (deployProcess cfg e p h) =
     h @ Exec (''touch '' @ new_outputFile cfg e h) #
         Post (post_url cfg ''Commit'' (repository_statuses_url p) (head_commit_id p))
           (status_args pending_status) # r"
  by (simp add: deployProcess_eq buildProcess_def updateStatus_cases makeBuild_eq Let_def)

subsection \<open>Exit codes and the reported status\<close>

text \<open>
  C1. The claim: exit code 0 is reported as \<^verbatim>\<open>success\<close> and every other exit code,
  1 and 127 among them, as \<^verbatim>\<open>failure\<close>. Both pipelines compare the exit code with 1
  only, so a test command that exits with 127 is reported as \<^verbatim>\<open>success\<close>: the runs
  below, of the commit pipeline and of the pull-request pipeline, post \<^verbatim>\<open>pending\<close>,
  build, and post \<^verbatim>\<open>success\<close>. \<^verbatim>\<open>deployProcess\<close> treats the same exit code as a
  failed build (see C5 and C10).
\<close>

theorem exit_code_127_reported_as_success:
  "timeline (snd (buildProcess cfg0 (test_env True True False 127) push0 ''build.txt'' [])) =
     [Report ''pending'',
      Run ''git clone https://example.com/repo.git /Users/santhoshraju/Documents/github-node-webhook/PRS/abc123'',
      Run ''npm install'',
      Run ''npm test >> /Users/santhoshraju/Documents/github-node-webhook/build.txt'',
      Report ''success''] \<and>
   timeline (snd (buildPRProcess cfg0 (test_env True True False 127) pr0 [])) =
     [Report ''pending'',
      Run ''git clone https://example.com/repo.git /Users/santhoshraju/Documents/github-node-webhook/PRS/abc123'',
      Run ''npm install'',
      Run ''npm test >> /Users/santhoshraju/Documents/github-node-webhook/undefined'',
      Report ''success'']"
  by (simp add: model_defs input_defs)

subsection \<open>The two status reports of a pipeline\<close>

text \<open>
  A run of the commit pipeline whose pending post is answered with an empty body: the
  awaited promise is rejected, the function ends there, and the history holds one report
  and no build.
\<close>

theorem pending_rejected_single_report:
  "timeline (snd (buildProcess cfg0 (test_env False True False 0) push0 ''build.txt'' [])) =
     [Report ''pending'']"
  by (simp add: model_defs input_defs)

text \<open>
  C2, as amended. In both pipelines, when the pending post is acknowledged the status is
  reported exactly twice: \<^verbatim>\<open>pending\<close> first, then the shell commands of the build, then
  \<^verbatim>\<open>success\<close> or \<^verbatim>\<open>failure\<close>. When the pending post is rejected, the pipeline
  ends after that one report and nothing is built.
\<close>

theorem reports_pending_then_final:
  "(\<not> isl (fst (updateStatus cfg e ''Commit'' (repository_statuses_url p) pending_status
                 (head_commit_id p) h)) \<longrightarrow>
      (\<exists>cmds s. timeline (snd (buildProcess cfg e p out h)) =
                   timeline h @ Report ''pending'' # map Run cmds @ [Report s] \<and>
                 cmds \<noteq> [] \<and> (s = ''success'' \<or> s = ''failure''))) \<and>
   (isl (fst (updateStatus cfg e ''Commit'' (repository_statuses_url p) pending_status
                 (head_commit_id p) h)) \<longrightarrow>
      timeline (snd (buildProcess cfg e p out h)) = timeline h @ [Report ''pending'']) \<and>
   (\<not> isl (fst (updateStatus cfg e ''PR'' (pull_request_statuses_url q) pending_status [] h)) \<longrightarrow>
      (\<exists>cmds s. timeline (snd (buildPRProcess cfg e q h)) =
                   timeline h @ Report ''pending'' # map Run cmds @ [Report s] \<and>
                 cmds \<noteq> [] \<and> (s = ''success'' \<or> s = ''failure''))) \<and>
   (isl (fst (updateStatus cfg e ''PR'' (pull_request_statuses_url q) pending_status [] h)) \<longrightarrow>
      timeline (snd (buildPRProcess cfg e q h)) = timeline h @ [Report ''pending''])"
proof (intro conjI impI)
  assume a: "\<not> isl (fst (updateStatus cfg e ''Commit'' (repository_statuses_url p) pending_status
                 (head_commit_id p) h))"
  show "\<exists>cmds s. timeline (snd (buildProcess cfg e p out h)) =
                   timeline h @ Report ''pending'' # map Run cmds @ [Report s] \<and>
                 cmds \<noteq> [] \<and> (s = ''success'' \<or> s = ''failure'')"
    using a final_state_cases
    by (simp only: timeline_buildProcess Let_def if_False) blast
next
  assume a: "isl (fst (updateStatus cfg e ''Commit'' (repository_statuses_url p) pending_status
                 (head_commit_id p) h))"
  then show "timeline (snd (buildProcess cfg e p out h)) = timeline h @ [Report ''pending'']"
    by (simp only: timeline_buildProcess Let_def if_True)
next
  assume a: "\<not> isl (fst (updateStatus cfg e ''PR'' (pull_request_statuses_url q) pending_status [] h))"
  show "\<exists>cmds s. timeline (snd (buildPRProcess cfg e q h)) =
                   timeline h @ Report ''pending'' # map Run cmds @ [Report s] \<and>
                 cmds \<noteq> [] \<and> (s = ''success'' \<or> s = ''failure'')"
    using a final_state_cases
    by (simp only: timeline_buildPRProcess Let_def if_False) blast
next
  assume a: "isl (fst (updateStatus cfg e ''PR'' (pull_request_statuses_url q) pending_status [] h))"
  then show "timeline (snd (buildPRProcess cfg e q h)) = timeline h @ [Report ''pending'']"
    by (simp only: timeline_buildPRProcess Let_def if_True)
qed

theorem reports_pending_then_final_witness:
  "\<not> isl (fst (updateStatus cfg0 (test_env True True False 0) ''Commit''
                (repository_statuses_url push0) pending_status (head_commit_id push0) [])) \<and>
   (\<exists>cmds s. timeline (snd (buildProcess cfg0 (test_env True True False 0) push0 ''build.txt'' [])) =
                Report ''pending'' # map Run cmds @ [Report s] \<and>
              cmds \<noteq> [] \<and> (s = ''success'' \<or> s = ''failure'')) \<and>
   \<not> isl (fst (updateStatus cfg0 (test_env True True False 0) ''PR''
                (pull_request_statuses_url pr0) pending_status [] [])) \<and>
   (\<exists>cmds s. timeline (snd (buildPRProcess cfg0 (test_env True True False 0) pr0 [])) =
                Report ''pending'' # map Run cmds @ [Report s] \<and>
              cmds \<noteq> [] \<and> (s = ''success'' \<or> s = ''failure'')) \<and>
   isl (fst (updateStatus cfg0 (test_env False True False 0) ''Commit''
                (repository_statuses_url push0) pending_status (head_commit_id push0) [])) \<and>
   timeline (snd (buildProcess cfg0 (test_env False True False 0) push0 ''build.txt'' [])) =
     [Report ''pending''] \<and>
   isl (fst (updateStatus cfg0 (test_env False True False 0) ''PR''
                (pull_request_statuses_url pr0) pending_status [] [])) \<and>
   timeline (snd (buildPRProcess cfg0 (test_env False True False 0) pr0 [])) = [Report ''pending'']"
proof -
  have a: "\<not> isl (fst (updateStatus cfg0 (test_env True True False 0) ''Commit''
                (repository_statuses_url push0) pending_status (head_commit_id push0) []))"
    by (simp add: model_defs input_defs)
  have a': "\<not> isl (fst (updateStatus cfg0 (test_env True True False 0) ''PR''
                (pull_request_statuses_url pr0) pending_status [] []))"
    by (simp add: model_defs input_defs)
  have b: "isl (fst (updateStatus cfg0 (test_env False True False 0) ''Commit''
                (repository_statuses_url push0) pending_status (head_commit_id push0) []))"
    by (simp add: model_defs input_defs)
  have b': "isl (fst (updateStatus cfg0 (test_env False True False 0) ''PR''
                (pull_request_statuses_url pr0) pending_status [] []))"
    by (simp add: model_defs input_defs)
  note t1 = reports_pending_then_final [of cfg0 "test_env True True False 0" push0 "[]"
      "''build.txt''" pr0]
  note t2 = reports_pending_then_final [of cfg0 "test_env False True False 0" push0 "[]"
      "''build.txt''" pr0]
  from t1 a have c: "\<exists>cmds s. timeline (snd (buildProcess cfg0 (test_env True True False 0) push0 ''build.txt'' [])) =
                timeline [] @ Report ''pending'' # map Run cmds @ [Report s] \<and>
              cmds \<noteq> [] \<and> (s = ''success'' \<or> s = ''failure'')"
    by blast
  from t1 a' have c': "\<exists>cmds s. timeline (snd (buildPRProcess cfg0 (test_env True True False 0) pr0 [])) =
                timeline [] @ Report ''pending'' # map Run cmds @ [Report s] \<and>
              cmds \<noteq> [] \<and> (s = ''success'' \<or> s = ''failure'')"
    by blast
  from t2 b have d: "timeline (snd (buildProcess cfg0 (test_env False True False 0) push0 ''build.txt'' [])) =
      timeline [] @ [Report ''pending'']"
    by blast
  from t2 b' have d': "timeline (snd (buildPRProcess cfg0 (test_env False True False 0) pr0 [])) =
      timeline [] @ [Report ''pending'']"
    by blast
  from a a' b b' c c' d d' show ?thesis by simp
qed

subsection \<open>The push handler\<close>

text \<open>
  C3. A push starts the build pipeline (its first act is the pending report) if and only
  if its ref is an element of \<^verbatim>\<open>deployFor\<close>; for any other ref the handler does
  nothing at all, and for a ref of the list it runs \<^verbatim>\<open>deployProcess\<close>.
\<close>

theorem push_builds_iff_ref_in_deployFor:
  "(Report ''pending'' \<in> set (timeline (drop (length h) (on_push cfg e p h)))) =
     (ref p \<in> set (deployFor cfg)) \<and>
   (ref p \<notin> set (deployFor cfg) \<longrightarrow> on_push cfg e p h = h) \<and>
   (ref p \<in> set (deployFor cfg) \<longrightarrow>
      on_push cfg e p h =
        snd (deployProcess cfg e p (h @ [ConsoleLog ''Deployment process started''])))"
proof -
  obtain r where r: "snd (deployProcess cfg e p (h @ [ConsoleLog ''Deployment process started''])) =
     (h @ [ConsoleLog ''Deployment process started'']) @
       Exec (''touch '' @ new_outputFile cfg e (h @ [ConsoleLog ''Deployment process started''])) #
         Post (post_url cfg ''Commit'' (repository_statuses_url p) (head_commit_id p))
           (status_args pending_status) # r"
    using deployProcess_begins by blast
  show ?thesis
    by (simp add: on_push_def indexOf_nonneg r)
qed

theorem push_builds_iff_ref_in_deployFor_witness:
  "ref push0 \<in> set (deployFor cfg0) \<and>
   timeline (on_push cfg0 (test_env True True False 0) push0 []) =
     [Run ''touch logs/1500000000000.txt'',
      Report ''pending'',
      Run ''git clone https://example.com/repo.git /Users/santhoshraju/Documents/github-node-webhook/PRS/abc123'',
      Run ''npm install'',
      Run ''npm test >> /Users/santhoshraju/Documents/github-node-webhook/logs/1500000000000.txt'',
      Report ''success''] \<and>
   ref (push0\<lparr>ref := ''refs/heads/feature-x''\<rparr>) \<notin> set (deployFor cfg0) \<and>
   on_push cfg0 (test_env True True False 0) (push0\<lparr>ref := ''refs/heads/feature-x''\<rparr>) [] = []"
  using push_builds_iff_ref_in_deployFor [of "[]" cfg0 "test_env True True False 0" push0]
    push_builds_iff_ref_in_deployFor [of "[]" cfg0 "test_env True True False 0"
      "push0\<lparr>ref := ''refs/heads/feature-x''\<rparr>"]
  by (simp add: model_defs input_defs on_push_def indexOf_def)

subsection \<open>A rejected pending post\<close>

text \<open>
  A deploy whose pending post is answered with an empty body: no build command is run
  and neither branch on the exit code is taken; the rejection is logged twice, by
  \<^verbatim>\<open>updateStatus\<close> and by the \<^verbatim>\<open>catch\<close> of \<^verbatim>\<open>deployProcess\<close>.
\<close>

theorem pending_rejected_build_not_run:
  "deployProcess cfg0 (test_env False True False 0) push0 [] =
     (Inr (),
      [Exec ''touch logs/1500000000000.txt'',
       Post ''https://api.example.com/repos/o/r/statuses/abc123?access_token=t0k3n''
         (status_args pending_status),
       ConsoleError ''Something went wrong'',
       ConsoleError ''Something went wrong undefined''])"
  by (simp add: model_defs input_defs)

text \<open>
  C4, as amended. If the pending post is rejected, \<^verbatim>\<open>deployProcess\<close> ends without
  building: after creating the output file and posting \<^verbatim>\<open>pending\<close> it only logs the
  rejection, and it completes normally.
\<close>

theorem pending_rejected_aborts_pipeline:
  assumes "isl (fst (updateStatus cfg e ''Commit'' (repository_statuses_url p) pending_status
                  (head_commit_id p) (h @ [Exec (''touch '' @ new_outputFile cfg e h)])))"
  shows "deployProcess cfg e p h =
           (Inr (),
            h @ [Exec (''touch '' @ new_outputFile cfg e h),
                 Post (post_url cfg ''Commit'' (repository_statuses_url p) (head_commit_id p))
                   (status_args pending_status),
                 ConsoleError ''Something went wrong'',
                 ConsoleError ''Something went wrong undefined''])"
  unfolding deployProcess_eq buildProcess_pending_rejected [OF assms] by simp

theorem pending_rejected_aborts_pipeline_witness:
  "isl (fst (updateStatus cfg0 (test_env False True True 0) ''Commit''
               (repository_statuses_url push0) pending_status (head_commit_id push0)
               ([] @ [Exec (''touch '' @ new_outputFile cfg0 (test_env False True True 0) [])]))) \<and>
   timeline (snd (deployProcess cfg0 (test_env False True True 0) push0 [])) =
     [Run ''touch logs/1500000000000.txt'', Report ''pending'']"
proof -
  have a: "isl (fst (updateStatus cfg0 (test_env False True True 0) ''Commit''
               (repository_statuses_url push0) pending_status (head_commit_id push0)
               ([] @ [Exec (''touch '' @ new_outputFile cfg0 (test_env False True True 0) [])])))"
    by (simp add: model_defs input_defs)
  show ?thesis
    using a pending_rejected_aborts_pipeline [OF a]
    by (simp add: new_outputFile_def input_defs)
qed

subsection \<open>The deploy decision\<close>

text \<open>
  C5. The claim: the deploy sequence is entered if and only if the pipeline's resulting
  status is \<^verbatim>\<open>success\<close>. \<^verbatim>\<open>deployProcess\<close> branches on the returned exit code being 0,
  while the status was derived from the exit code being 1: with exit code 127 the pipeline
  posts \<^verbatim>\<open>success\<close> and \<^verbatim>\<open>deployProcess\<close> logs \<^verbatim>\<open>build failed\<close>.
\<close>

theorem exit_code_127_success_status_failure_branch:
  "snd (deployProcess cfg0 (test_env True True False 127) push0 []) =
     [Exec ''touch logs/1500000000000.txt'',
      Post ''https://api.example.com/repos/o/r/statuses/abc123?access_token=t0k3n''
        (status_args pending_status),
      ConsoleLog ''Status updated'',
      Mkdir ''-p'' ''/Users/santhoshraju/Documents/github-node-webhook/PRS/abc123'',
      Exec ''git clone https://example.com/repo.git /Users/santhoshraju/Documents/github-node-webhook/PRS/abc123'',
      Cd ''/Users/santhoshraju/Documents/github-node-webhook/PRS/abc123'',
      Exec ''npm install'',
      Exec ''npm test >> /Users/santhoshraju/Documents/github-node-webhook/logs/1500000000000.txt'',
      Post ''https://api.example.com/repos/o/r/statuses/abc123?access_token=t0k3n''
        (status_args \<lparr>state = ''success'', description = ''Build & test case execution success''\<rparr>),
      ConsoleLog ''Status updated'',
      ConsoleLog ''build failed'']"
  by (simp add: model_defs input_defs)

subsection \<open>Exit codes on which the status and the deploy decision differ\<close>




subsection \<open>Clone or pull\<close>

text \<open>
  C6. If the working directory does not exist, \<^verbatim>\<open>makeBuild\<close> creates it with
  \<^verbatim>\<open>mkdir -p\<close>, clones the repository into it and enters it; if it exists, it enters it
  and pulls, and does not clone. In both cases \<^verbatim>\<open>npm install\<close> and the test command
  follow, and the result is the exit code of the test command.
\<close>

theorem makeBuild_clones_only_when_absent:
  "(\<not> existsSync e h cwd \<longrightarrow>
      snd (makeBuild e cloneURL cwd out h) =
        h @ [Mkdir ''-p'' cwd, Exec (''git clone '' @ cloneURL @ '' '' @ cwd), Cd cwd,
             Exec ''npm install'',
             Exec (''npm test >> /Users/santhoshraju/Documents/github-node-webhook/''
                     @ toString out)]) \<and>
   (existsSync e h cwd \<longrightarrow>
      snd (makeBuild e cloneURL cwd out h) =
        h @ [Cd cwd, Exec ''git pull'',
             Exec ''npm install'',
             Exec (''npm test >> /Users/santhoshraju/Documents/github-node-webhook/''
                     @ toString out)]) \<and>
   fst (makeBuild e cloneURL cwd out h) =
     exit_code e (butlast (snd (makeBuild e cloneURL cwd out h)))
       (''npm test >> /Users/santhoshraju/Documents/github-node-webhook/'' @ toString out)"
  by (simp add: makeBuild_eq Let_def butlast_append)

theorem makeBuild_clones_only_when_absent_witness:
  "\<not> existsSync (test_env True True False 0) [] ''/ci/PRS/abc123'' \<and>
   snd (makeBuild (test_env True True False 0) ''https://example.com/repo.git'' ''/ci/PRS/abc123''
          (JStr ''build.txt'') []) =
     [Mkdir ''-p'' ''/ci/PRS/abc123'',
      Exec ''git clone https://example.com/repo.git /ci/PRS/abc123'',
      Cd ''/ci/PRS/abc123'',
      Exec ''npm install'',
      Exec ''npm test >> /Users/santhoshraju/Documents/github-node-webhook/build.txt''] \<and>
   existsSync (test_env True True True 0) [] ''/ci/PRS/abc123'' \<and>
   snd (makeBuild (test_env True True True 0) ''https://example.com/repo.git'' ''/ci/PRS/abc123''
          (JStr ''build.txt'') []) =
     [Cd ''/ci/PRS/abc123'', Exec ''git pull'', Exec ''npm install'',
      Exec ''npm test >> /Users/santhoshraju/Documents/github-node-webhook/build.txt'']"
  using makeBuild_clones_only_when_absent [of "test_env True True False 0" "[]" "''/ci/PRS/abc123''"
      "''https://example.com/repo.git''" "JStr ''build.txt''"]
    makeBuild_clones_only_when_absent [of "test_env True True True 0" "[]" "''/ci/PRS/abc123''"
      "''https://example.com/repo.git''" "JStr ''build.txt''"]
  by (simp add: test_env_def)

subsection \<open>The address of a status report\<close>

text \<open>
  \<^verbatim>\<open>replace\<close> rewrites the first occurrence of the placeholder only, and expands the
  dollar patterns of the replacement; a URL without placeholder is left as it is.
\<close>

lemma replace_first_occurrence_and_dollar_patterns:
  "replace ''a{sha}b{sha}'' ''{sha}'' ''x$&y$$z$1'' = ''ax{sha}y$z$1b{sha}''"
  by (simp add: replace_def)

lemma repoURL_without_placeholder:
  "CHR ''{'' \<notin> set repo \<Longrightarrow> repoURL ''Commit'' repo commit = repo"
  by (simp add: repoURL_def replace_def find_first_absent)

lemma replace_placeholder:
  assumes "CHR ''$'' \<notin> set commit"
    and "\<forall>i<length pre. \<not> prefix ''{sha}'' (drop i (pre @ ''{sha}'' @ suf))"
  shows "replace (pre @ ''{sha}'' @ suf) ''{sha}'' commit = pre @ commit @ suf"
proof -
  have f: "find_first ''{sha}'' (pre @ ''{sha}'' @ suf) = Some (pre, suf)"
    using assms(2) by (rule find_first_first_occurrence)
  have g: "getSubstitution ''{sha}'' pre suf commit = commit"
    using assms(1) by (rule getSubstitution_plain)
  show ?thesis
    unfolding replace_def f by (simp add: g)
qed

text \<open>
  C7. In commit mode the placeholder \<^verbatim>\<open>{sha}\<close> of the status URL, at its first
  occurrence, is replaced by the commit hash; in pull-request mode the URL is used as it
  is. In both modes the access token is appended. A commit hash is a string of hexadecimal
  digits, so it holds no dollar sign. The URL may hold other braces, before and after the
  placeholder.
\<close>

theorem commit_mode_substitutes_sha:
  "(CHR ''$'' \<notin> set commit \<and>
    (\<forall>i<length pre. \<not> prefix ''{sha}'' (drop i (pre @ ''{sha}'' @ suf))) \<longrightarrow>
      snd (updateStatus cfg e ''Commit'' (pre @ ''{sha}'' @ suf) st commit h) ! length h =
        Post (pre @ commit @ suf @ ''?access_token='' @ accessToken cfg) (status_args st)) \<and>
   snd (updateStatus cfg e ''PR'' repo st commit h) ! length h =
     Post (repo @ ''?access_token='' @ accessToken cfg) (status_args st)"
proof (intro conjI impI)
  assume a: "CHR ''$'' \<notin> set commit \<and>
    (\<forall>i<length pre. \<not> prefix ''{sha}'' (drop i (pre @ ''{sha}'' @ suf)))"
  have "post_url cfg ''Commit'' (pre @ ''{sha}'' @ suf) commit =
          pre @ commit @ suf @ ''?access_token='' @ accessToken cfg"
    using a replace_placeholder [of commit pre suf] by (simp add: post_url_def repoURL_def)
  then show "snd (updateStatus cfg e ''Commit'' (pre @ ''{sha}'' @ suf) st commit h) ! length h =
        Post (pre @ commit @ suf @ ''?access_token='' @ accessToken cfg) (status_args st)"
    by (simp add: updateStatus_cases Let_def)
next
  show "snd (updateStatus cfg e ''PR'' repo st commit h) ! length h =
     Post (repo @ ''?access_token='' @ accessToken cfg) (status_args st)"
    by (simp add: updateStatus_cases Let_def post_url_def repoURL_def)
qed

theorem commit_mode_substitutes_sha_witness:
  "CHR ''$'' \<notin> set ''9fceb02d0ae598e95dc970b74767f19372d61af8'' \<and>
   find_first ''{sha}'' (''https://h/{owner}/statuses/'' @ ''{sha}'' @ ''/x{sha}'') =
     Some (''https://h/{owner}/statuses/'', ''/x{sha}'') \<and>
   snd (updateStatus cfg0 (test_env True True False 0) ''Commit''
          (''https://h/{owner}/statuses/'' @ ''{sha}'' @ ''/x{sha}'')
          pending_status ''9fceb02d0ae598e95dc970b74767f19372d61af8'' []) ! length ([] :: history) =
     Post ''https://h/{owner}/statuses/9fceb02d0ae598e95dc970b74767f19372d61af8/x{sha}?access_token=t0k3n''
       (status_args pending_status)"
proof -
  have a: "CHR ''$'' \<notin> set ''9fceb02d0ae598e95dc970b74767f19372d61af8''"
    by simp
  have b: "\<forall>i<length ''https://h/{owner}/statuses/''.
      \<not> prefix ''{sha}'' (drop i (''https://h/{owner}/statuses/'' @ ''{sha}'' @ ''/x{sha}''))"
    by (simp add: All_less_Suc)
  have c: "find_first ''{sha}'' (''https://h/{owner}/statuses/'' @ ''{sha}'' @ ''/x{sha}'') =
     Some (''https://h/{owner}/statuses/'', ''/x{sha}'')"
    using b by (rule find_first_first_occurrence)
  show ?thesis
    using a b c commit_mode_substitutes_sha [of "''9fceb02d0ae598e95dc970b74767f19372d61af8''"
      "''https://h/{owner}/statuses/''" "''/x{sha}''" cfg0 "test_env True True False 0"
      pending_status "[]"]
    by (simp add: cfg0_def)
qed

subsection \<open>Acknowledgement and rejection\<close>



subsection \<open>Exceptions and the try of deployProcess\<close>

text \<open>
  What is thrown inside the block of the \<^verbatim>\<open>try\<close>, a rejected status post, is caught
  and logged with \<^verbatim>\<open>console.error\<close>, and \<^verbatim>\<open>deployProcess\<close> completes normally.
\<close>

lemma deployProcess_never_rejects:
  "fst (deployProcess cfg e p h) = Inr () \<and>
   (\<forall>err h'. deployProcess_try cfg e p h = (Inl err, h') \<longrightarrow>
      snd (deployProcess cfg e p h) =
        h' @ [ConsoleError (''Something went wrong '' @ toString err)])"
  by (simp add: deployProcess_def try_catch_def split: prod.splits sum.splits)

text \<open>
  When every request is answered, handling a push returns. When the request of the
  pending post fails, the process ends there with the uncaught error, whatever the
  configuration, the environment and the push.
\<close>

lemma first_request_error_none:
  "(\<And>h u a. f h u a = None) \<Longrightarrow> first_request_error f h evs = None"
  by (induction f h evs rule: first_request_error.induct) auto

lemma push_outcome_answered:
  "(\<And>h u a. f h u a = None) \<Longrightarrow>
   push_outcome cfg e f p h = Returned (on_push cfg e p h)"
  by (simp add: push_outcome_def first_request_error_none)

lemma push_outcome_pending_request_fails:
  assumes "ref p \<in> set (deployFor cfg)"
    and "f (h @ [ConsoleLog ''Deployment process started'',
                 Exec (''touch '' @ new_outputFile cfg e
                          (h @ [ConsoleLog ''Deployment process started'']))])
           (post_url cfg ''Commit'' (repository_statuses_url p) (head_commit_id p))
           (status_args pending_status) = Some err"
  shows "push_outcome cfg e f p h =
           Uncaught (h @ [ConsoleLog ''Deployment process started'',
                          Exec (''touch '' @ new_outputFile cfg e
                                   (h @ [ConsoleLog ''Deployment process started''])),
                          Post (post_url cfg ''Commit'' (repository_statuses_url p)
                                  (head_commit_id p))
                            (status_args pending_status)]) err"
proof -
  obtain r where r: "snd (deployProcess cfg e p (h @ [ConsoleLog ''Deployment process started''])) =
     (h @ [ConsoleLog ''Deployment process started'']) @
       Exec (''touch '' @ new_outputFile cfg e (h @ [ConsoleLog ''Deployment process started''])) #
         Post (post_url cfg ''Commit'' (repository_statuses_url p) (head_commit_id p))
           (status_args pending_status) # r"
    using deployProcess_begins by blast
  show ?thesis
    using assms unfolding push_outcome_def on_push_def r
    by (simp add: indexOf_nonneg)
qed

text \<open>
  C9. The claim: every exception raised during a deploy is caught by \<^verbatim>\<open>deployProcess\<close>
  and logged, and no build ends the listening process. A push to a deploy ref while the
  status API cannot be reached: the request of the pending post fails, its error event has
  no listener, and the process ends with the uncaught error after the post; the
  \<^verbatim>\<open>catch\<close> of \<^verbatim>\<open>deployProcess\<close> is never entered and nothing is logged.
\<close>

theorem unreachable_status_api_ends_process:
  "push_outcome cfg0 (test_env True True False 0) unreachable push0 [] =
     Uncaught
       [ConsoleLog ''Deployment process started'',
        Exec ''touch logs/1500000000000.txt'',
        Post ''https://api.example.com/repos/o/r/statuses/abc123?access_token=t0k3n''
          (status_args pending_status)]
       (JObject [(''code'', JStr ''ECONNREFUSED'')])"
  by (simp add: push_outcome_def on_push_def indexOf_def unreachable_def model_defs input_defs)

end
